theory Spec2Isabelle
  imports Complex_Main "HOL-Library.Sublist"
begin

section \<open>Data model\<close>

text \<open>
  Modelled from the spec: the class \<open>Message\<close> of \<open>pydantic_prompter.common\<close> is imported
  by \<open>model.py\<close> but defined elsewhere. The spec gives it two fields, \<open>role\<close> and
  \<open>content\<close>; \<open>model.py\<close> compares \<open>role\<close> with string literals and concatenates
  \<open>content\<close>, so both are strings here.
\<close>

record Message =
  role :: string
  content :: string

text \<open>The line feed, written \<open>\n\<close> in the Python literals.\<close>

definition nl :: string where
  "nl = [CHR 0x0A]"

text \<open>
  Python lists hold references to message objects, and the formatting passes assign to
  the fields of these objects. A message list is therefore a list of addresses, and the
  objects live in a heap that every operation takes and returns. \<open>nxt\<close> is the first
  address not yet handed out by a constructor call.
\<close>

type_synonym ref = nat

record heap =
  cells :: "ref \<Rightarrow> Message"
  nxt :: ref

definition get :: "heap \<Rightarrow> ref \<Rightarrow> Message" where
  "get h r = cells h r"

definition set_role :: "heap \<Rightarrow> ref \<Rightarrow> string \<Rightarrow> heap" where
  "set_role h r v = h\<lparr>cells := (cells h)(r := (cells h r)\<lparr>role := v\<rparr>)\<rparr>"

definition set_content :: "heap \<Rightarrow> ref \<Rightarrow> string \<Rightarrow> heap" where
  "set_content h r v = h\<lparr>cells := (cells h)(r := (cells h r)\<lparr>content := v\<rparr>)\<rparr>"

text \<open>\<open>Message(role=..., content=...)\<close>: a new object at a fresh address.\<close>

definition alloc :: "heap \<Rightarrow> Message \<Rightarrow> heap \<times> ref" where
  "alloc h m = (h\<lparr>cells := (cells h)(nxt h := m), nxt := Suc (nxt h)\<rparr>, nxt h)"

text \<open>The messages a list of references denotes in a heap.\<close>

definition deref :: "heap \<Rightarrow> ref list \<Rightarrow> Message list" where
  "deref h rs = map (get h) rs"

definition roles :: "heap \<Rightarrow> ref list \<Rightarrow> string list" where
  "roles h rs = map (\<lambda>r. role (get h r)) rs"

section \<open>Message normalization\<close>

text \<open>
  \<open>Model.fix_and_merge_messages\<close>: the loop over \<open>msgs\<close>, with the heap and the list
  \<open>fixed_messages\<close> as loop state. The role rewrite and the content update are assignments
  to the objects, so they are seen through every reference to the same object.
\<close>

fun fix_and_merge_loop :: "bool \<Rightarrow> ref list \<Rightarrow> heap \<Rightarrow> ref list \<Rightarrow> heap \<times> ref list" where
  "fix_and_merge_loop srs [] h fixed_messages = (h, fixed_messages)"
| "fix_and_merge_loop srs (m # msgs) h fixed_messages =
     (let h1 = (if \<not> srs \<and> role (get h m) = ''system'' then set_role h m ''user'' else h)
      in if fixed_messages \<noteq> [] \<and> role (get h1 (last fixed_messages)) = role (get h1 m)
         then fix_and_merge_loop srs msgs
                (set_content h1 (last fixed_messages)
                   (content (get h1 (last fixed_messages)) @ nl @ nl @ content (get h1 m)))
                fixed_messages
         else fix_and_merge_loop srs msgs h1 (fixed_messages @ [m]))"

definition Model_fix_and_merge_messages :: "bool \<Rightarrow> heap \<Rightarrow> ref list \<Rightarrow> heap \<times> ref list" where
  "Model_fix_and_merge_messages srs h msgs = fix_and_merge_loop srs msgs h []"


text \<open>
  \<open>Llama2.fix_and_merge_messages\<close>, second half: the loop that wraps the content of the
  normalized messages. The two tests are separate \<open>if\<close> statements, as in the source.
\<close>

fun llama2_wrap_loop :: "ref list \<Rightarrow> heap \<Rightarrow> heap" where
  "llama2_wrap_loop [] h = h"
| "llama2_wrap_loop (msg # msgs) h =
     (let h1 = (if role (get h msg) = ''system''
                then set_content h msg (''<<SYS>> '' @ content (get h msg) @ '' <</SYS>>'')
                else h);
          h2 = (if role (get h1 msg) = ''user''
                then set_content h1 msg (''[INST] '' @ content (get h1 msg) @ '' [/INST]'')
                else h1)
      in llama2_wrap_loop msgs h2)"

section \<open>Settings and provider variants\<close>

text \<open>
  The values of the settings dictionary and of the dictionaries handed to \<open>json.dumps\<close>.
  \<open>json.dumps\<close> itself is the standard library's and is not modelled: a request body is
  the dictionary it is given, as an association list in the order of the dict literal.
\<close>

datatype pyval =
    PNone
  | PBool bool
  | PInt int
  | PFloat real
  | PStr string
  | PList "pyval list"
  | PDict "(string \<times> pyval) list"

type_synonym body = "(string \<times> pyval) list"

text \<open>Python truth value testing, as used by \<open>or\<close>.\<close>

fun truthy :: "pyval \<Rightarrow> bool" where
  "truthy PNone = False"
| "truthy (PBool b) = b"
| "truthy (PInt i) = (i \<noteq> 0)"
| "truthy (PFloat x) = (x \<noteq> 0)"
| "truthy (PStr s) = (s \<noteq> [])"
| "truthy (PList xs) = (xs \<noteq> [])"
| "truthy (PDict kvs) = (kvs \<noteq> [])"

text \<open>
  \<open>settings.get(key) or default\<close>: \<open>get\<close> gives \<open>None\<close> for a missing key, and \<open>or\<close>
  takes its right operand whenever the left one is false in a boolean context.
\<close>

definition get_or :: "(string \<rightharpoonup> pyval) \<Rightarrow> string \<Rightarrow> pyval \<Rightarrow> pyval" where
  "get_or settings key dflt =
     (let v = (case settings key of None \<Rightarrow> PNone | Some x \<Rightarrow> x)
      in if truthy v then v else dflt)"

datatype error = NotImplementedError | IndexError | KeyError string | TypeError | ValueError



datatype variant = Model | GPT | Llama2 | CohereCommand | CohereCommandR | Claude

text \<open>
  An instance of one of the classes. \<open>system_role_supported\<close> and
  \<open>add_llama_special_tokens\<close> are class attributes read through \<open>self\<close>; every class of
  \<open>model.py\<close> has them \<open>True\<close>, and the constructors below set them so.
\<close>

record model =
  variant :: variant
  model_name :: string
  model_settings :: "string \<rightharpoonup> pyval"
  system_role_supported :: bool
  add_llama_special_tokens :: bool

definition Model_init :: "variant \<Rightarrow> string \<Rightarrow> (string \<rightharpoonup> pyval) option \<Rightarrow> model" where
  "Model_init v name settings =
     \<lparr>variant = v, model_name = name,
      model_settings = (case settings of None \<Rightarrow> Map.empty | Some s \<Rightarrow> s),
      system_role_supported = True, add_llama_special_tokens = True\<rparr>"

text \<open>\<open>Llama2.__init__\<close> takes the model name only and passes no settings on.\<close>

definition Llama2_init :: "string \<Rightarrow> model" where
  "Llama2_init name = Model_init Llama2 name None"

definition Llama2_fix_and_merge_messages :: "model \<Rightarrow> heap \<Rightarrow> ref list \<Rightarrow> heap \<times> ref list" where
  "Llama2_fix_and_merge_messages self h msgs =
     (case Model_fix_and_merge_messages (system_role_supported self) h msgs of
        (h1, msgs1) \<Rightarrow>
          if add_llama_special_tokens self then (llama2_wrap_loop msgs1 h1, msgs1)
          else (h1, msgs1))"

text \<open>\<open>self.fix_and_merge_messages\<close>: only \<open>Llama2\<close> overrides the method.\<close>

definition fix_and_merge_messages :: "model \<Rightarrow> heap \<Rightarrow> ref list \<Rightarrow> heap \<times> ref list" where
  "fix_and_merge_messages self h msgs =
     (if variant self = Llama2 then Llama2_fix_and_merge_messages self h msgs
      else Model_fix_and_merge_messages (system_role_supported self) h msgs)"

section \<open>Scaffold templates\<close>

text \<open>
  \<open>str.strip()\<close> with no argument removes leading and trailing whitespace. Characters are
  the code points below 256; those that Python counts as whitespace are listed.
\<close>

definition is_space :: "char \<Rightarrow> bool" where
  "is_space c \<longleftrightarrow>
     c \<in> set [CHR 0x09, CHR 0x0A, CHR 0x0B, CHR 0x0C, CHR 0x0D,
               CHR 0x1C, CHR 0x1D, CHR 0x1E, CHR 0x1F, CHR 0x20, CHR 0x85, CHR 0xA0]"

definition strip :: "string \<Rightarrow> string" where
  "strip s = rev (dropWhile is_space (rev (dropWhile is_space s)))"

text \<open>
  \<open>Model.system_message_jinja2\<close> returns its literal after \<open>inspect.cleandoc\<close>, which
  removes the common indentation of 16 columns from every line but the first;
  \<open>build_prompt\<close> renders it with jinja2. \<open>system_message_render schema return_type\<close> is
  the rendered text: the \<open>if\<close> tag selects one branch, the two variables are substituted,
  and all other text, line feeds and remaining indentation included, is kept as it is.
  The last line of the literal holds spaces only, four of which are left.
\<close>

definition system_message_render :: "string \<Rightarrow> string \<Rightarrow> string" where
  "system_message_render schema return_type =
     ''Act like a REST API that performs the requested operation the user asked according to guidelines provided.'' @ nl @
     (if return_type = ''json'' then
        nl @ ''    Your response should be a valid JSON format, strictly adhering to the Pydantic schema provided in the json_schema section. '' @ nl @
        ''    Respond in a structured JSON format according to the provided schema.'' @ nl @
        nl @
        ''```json_schema'' @ nl @
        ''    '' @ schema @ nl @
        ''```'' @ nl
      else
        nl @ ''        Your response should be a valid '' @ return_type @ '' only'' @ nl) @
     nl @ ''        Stick to the facts and details in the provided data, and follow the guidelines closely.'' @ nl @
     ''        DO NOT add any other text other than the '' @ return_type @ '' response'' @ nl @
     ''    ''"

text \<open>
  \<open>Model.assistant_hint_jinja2\<close>, rendered in the same way: the literal starts with a line
  feed, which \<open>cleandoc\<close> drops, and is indented by 12 columns.
\<close>

definition assistant_hint_render :: "string \<Rightarrow> string" where
  "assistant_hint_render return_type =
     (if return_type = ''json'' then nl @ ''    ```'' @ return_type @ nl else nl) @
     nl @ ''    ''"

text \<open>
  The template methods by variant. \<open>GPT\<close> overrides both with a body of \<open>pass\<close>, so they
  return \<open>None\<close>; every other class inherits them from \<open>Model\<close>.
\<close>

definition system_message_jinja2 :: "variant \<Rightarrow> (string \<Rightarrow> string \<Rightarrow> string) option" where
  "system_message_jinja2 v = (if v = GPT then None else Some system_message_render)"

definition assistant_hint_jinja2 :: "variant \<Rightarrow> (string \<Rightarrow> string) option" where
  "assistant_hint_jinja2 v = (if v = GPT then None else Some assistant_hint_render)"

text \<open>
  The \<open>params\<close> argument of \<open>build_prompt\<close>: a dict or a string. \<open>json.dumps\<close> is the
  standard library's, so a dict is represented by what \<open>json.dumps(params, indent=4)\<close>
  does with it: the text it returns, or the exception it raises (\<open>TypeError\<close> for a value
  it cannot serialize, \<open>ValueError\<close> for a circular reference).
\<close>

datatype params = Dict "error + string" | Str string

definition dumps_error :: "params \<Rightarrow> error option" where
  "dumps_error p = (case p of Dict (Inl e) \<Rightarrow> Some e | Dict (Inr schema) \<Rightarrow> None | Str t \<Rightarrow> None)"

text \<open>
  The two branches of \<open>build_prompt\<close> on \<open>isinstance(params, dict)\<close>: the content of the
  system message and the assistant hint, each rendered and stripped. In the first branch
  \<open>json.dumps\<close> is evaluated before anything is rendered, and its exception ends the call.
\<close>

definition render_scaffold ::
  "(string \<Rightarrow> string \<Rightarrow> string) \<Rightarrow> (string \<Rightarrow> string) \<Rightarrow> params \<Rightarrow>
   error + string \<times> string" where
  "render_scaffold template hint_template p =
     (case p of
        Dict dumped \<Rightarrow>
          (case dumped of
             Inl e \<Rightarrow> Inl e
           | Inr schema \<Rightarrow>
               Inr (strip (template schema ''json''), strip (hint_template ''json'')))
      | Str t \<Rightarrow> Inr (strip (template t t), strip (hint_template t)))"

text \<open>
  \<open>Model.build_prompt\<close>. \<open>insert\<close> and \<open>append\<close> change the caller's list in place, so the
  result holds the heap, the caller's list as the call leaves it, and the returned list.
  jinja2 refuses a template source that is not a string with a \<open>TypeError\<close>, which
  happens at the first \<open>Template(...)\<close>; this and the exception of \<open>json.dumps\<close> come
  before the list or any message is changed.
\<close>

definition build_prompt ::
  "model \<Rightarrow> heap \<Rightarrow> ref list \<Rightarrow> params \<Rightarrow> heap \<times> ref list \<times> (error + ref list)" where
  "build_prompt self h messages p =
     (case system_message_jinja2 (variant self) of
        None \<Rightarrow> (h, messages, Inl TypeError)
      | Some template \<Rightarrow>
          (case assistant_hint_jinja2 (variant self) of
             None \<Rightarrow> (h, messages, Inl TypeError)
           | Some hint_template \<Rightarrow>
               (case render_scaffold template hint_template p of
                  Inl e \<Rightarrow> (h, messages, Inl e)
                | Inr content_hint \<Rightarrow>
                    (let a1 = alloc h \<lparr>role = ''system'', content = fst content_hint\<rparr>;
                         messages1 = snd a1 # messages;
                         a2 = alloc (fst a1)
                                \<lparr>role = ''assistant'', content = snd content_hint\<rparr>;
                         messages2 = messages1 @ [snd a2];
                         r = fix_and_merge_messages self (fst a2) messages2
                     in (fst r, messages2, Inr (snd r))))))"

section \<open>Request bodies\<close>

text \<open>\<open>sep.join(xs)\<close>.\<close>

fun join :: "string \<Rightarrow> string list \<Rightarrow> string" where
  "join sep [] = []"
| "join sep [x] = x"
| "join sep (x # y # ys) = x @ sep @ join sep (y # ys)"

text \<open>
  In the \<open>bedrock_format\<close> methods the argument \<open>u\<close> is the number \<open>uniform(0, 1)\<close>
  returns when it is called; the call happens only when \<open>or\<close> needs its right operand.
\<close>

definition Llama2_bedrock_format :: "model \<Rightarrow> real \<Rightarrow> heap \<Rightarrow> ref list \<Rightarrow> body" where
  "Llama2_bedrock_format self u h msgs =
     (let final_messages = join nl (map (\<lambda>m. content (get h m)) msgs)
      in [(''max_gen_len'', get_or (model_settings self) ''max_gen_len'' (PInt 2048)),
          (''prompt'', PStr final_messages),
          (''temperature'', get_or (model_settings self) ''temperature'' (PFloat u))])"

definition role_converter :: "string \<rightharpoonup> string" where
  "role_converter = [''user'' \<mapsto> ''USER'', ''system'' \<mapsto> ''USER'', ''assistant'' \<mapsto> ''CHATBOT'']"

text \<open>
  \<open>CohereCommand.format_messages\<close>. The assignment to \<open>msg.content\<close> changes the caller's
  object. A role outside the table raises \<open>KeyError\<close>; the objects changed before that
  stay changed, so the heap is returned in both cases.
\<close>

fun format_messages_loop ::
  "ref list \<Rightarrow> heap \<Rightarrow> (string \<times> string) list list \<Rightarrow>
   heap \<times> (error + (string \<times> string) list list)" where
  "format_messages_loop [] h output = (h, Inr output)"
| "format_messages_loop (msg # msgs) h output =
     (let h1 = (if role (get h msg) = ''system''
                then set_content h msg (''## Instructions'' @ nl @ content (get h msg))
                else h)
      in case role_converter (role (get h1 msg)) of
           None \<Rightarrow> (h1, Inl (KeyError (role (get h1 msg))))
         | Some r \<Rightarrow>
             format_messages_loop msgs h1
               (output @ [[(''role'', r), (''message'', content (get h1 msg))]]))"

definition format_messages ::
  "heap \<Rightarrow> ref list \<Rightarrow> heap \<times> (error + (string \<times> string) list list)" where
  "format_messages h msgs = format_messages_loop msgs h []"

text \<open>\<open>c[key]\<close> on the dictionaries that \<open>format_messages\<close> builds.\<close>

definition item :: "(string \<times> string) list \<Rightarrow> string \<Rightarrow> string" where
  "item c key = (case map_of c key of None \<Rightarrow> [] | Some v \<Rightarrow> v)"

definition cohere_prompt :: "(string \<times> string) list list \<Rightarrow> string" where
  "cohere_prompt contents =
     join nl (map (\<lambda>c. item c ''role'' @ '': '' @ item c ''message'') contents)"

definition CohereCommand_bedrock_format ::
  "model \<Rightarrow> real \<Rightarrow> heap \<Rightarrow> ref list \<Rightarrow> heap \<times> (error + body)" where
  "CohereCommand_bedrock_format self u h msgs =
     (case format_messages h msgs of
        (h1, Inl e) \<Rightarrow> (h1, Inl e)
      | (h1, Inr contents) \<Rightarrow>
          (h1, Inr [(''prompt'', PStr (cohere_prompt contents)),
                    (''stop_sequences'',
                       get_or (model_settings self) ''stop_sequences'' (PList [PStr ''User:''])),
                    (''temperature'', get_or (model_settings self) ''temperature'' (PFloat u))]))"

definition CohereCommandR_bedrock_format ::
  "model \<Rightarrow> real \<Rightarrow> heap \<Rightarrow> ref list \<Rightarrow> heap \<times> (error + body)" where
  "CohereCommandR_bedrock_format self u h msgs =
     (case format_messages h msgs of
        (h1, Inl e) \<Rightarrow> (h1, Inl e)
      | (h1, Inr contents) \<Rightarrow>
          (h1, Inr [(''message'', PStr (cohere_prompt contents)),
                    (''max_tokens'', PInt 20000),
                    (''stop_sequences'',
                       get_or (model_settings self) ''stop_sequences'' (PList [PStr ''User:''])),
                    (''temperature'', get_or (model_settings self) ''temperature'' (PFloat u))]))"

text \<open>\<open>m.dict()\<close> of a message.\<close>

definition dict :: "Message \<Rightarrow> pyval" where
  "dict m = PDict [(''role'', PStr (role m)), (''content'', PStr (content m))]"

text \<open>
  \<open>Claude.bedrock_format\<close>. \<open>msgs.pop(0)\<close> removes the first element from the caller's
  list and raises \<open>IndexError\<close> on an empty list; the result holds the list as the call
  leaves it.
\<close>

definition Claude_bedrock_format ::
  "model \<Rightarrow> real \<Rightarrow> heap \<Rightarrow> ref list \<Rightarrow> ref list \<times> (error + body)" where
  "Claude_bedrock_format self u h msgs =
     (case msgs of
        [] \<Rightarrow> ([], Inl IndexError)
      | system_message # rest \<Rightarrow>
          (rest,
           Inr [(''system'', PStr (content (get h system_message))),
                (''max_tokens'', get_or (model_settings self) ''max_tokens'' (PInt 8000)),
                (''messages'', PList (map (\<lambda>m. dict (get h m)) rest)),
                (''temperature'', get_or (model_settings self) ''temperature'' (PFloat u)),
                (''anthropic_version'',
                   get_or (model_settings self) ''anthropic_version''
                     (PStr ''bedrock-2023-05-31''))]))"

text \<open>
  \<open>self.bedrock_format(msgs)\<close> by variant; \<open>Model\<close> raises \<open>NotImplementedError\<close> and \<open>GPT\<close>
  inherits that. The result holds the heap and the caller's list after the call.
\<close>

definition bedrock_format ::
  "model \<Rightarrow> real \<Rightarrow> heap \<Rightarrow> ref list \<Rightarrow> heap \<times> ref list \<times> (error + body)" where
  "bedrock_format self u h msgs =
     (case variant self of
        Model \<Rightarrow> (h, msgs, Inl NotImplementedError)
      | GPT \<Rightarrow> (h, msgs, Inl NotImplementedError)
      | Llama2 \<Rightarrow> (h, msgs, Inr (Llama2_bedrock_format self u h msgs))
      | CohereCommand \<Rightarrow>
          (case CohereCommand_bedrock_format self u h msgs of (h1, r) \<Rightarrow> (h1, msgs, r))
      | CohereCommandR \<Rightarrow>
          (case CohereCommandR_bedrock_format self u h msgs of (h1, r) \<Rightarrow> (h1, msgs, r))
      | Claude \<Rightarrow>
          (case Claude_bedrock_format self u h msgs of (msgs1, r) \<Rightarrow> (h, msgs1, r)))"

section \<open>Normalization as the specification words it\<close>

text \<open>
  The specification describes normalization on message values, with no heap: a message
  whose role is \<open>system\<close> is rewritten to \<open>user\<close> when the system role is not supported;
  the message is then merged into the last accepted one when the roles are equal, as
  \<open>A.content + "\n\n" + B.content\<close>, and appended otherwise. \<open>normalize_spec\<close> follows
  these words, one message after the other from the left; it is compared with the loop
  of the source below.
\<close>

definition demote_spec :: "bool \<Rightarrow> Message \<Rightarrow> Message" where
  "demote_spec srs m = (if \<not> srs \<and> role m = ''system'' then m\<lparr>role := ''user''\<rparr> else m)"

definition accept_spec :: "Message list \<Rightarrow> Message \<Rightarrow> Message list" where
  "accept_spec accepted b =
     (if accepted \<noteq> [] \<and> role (last accepted) = role b
      then butlast accepted @
           [(last accepted)\<lparr>content := content (last accepted) @ nl @ nl @ content b\<rparr>]
      else accepted @ [b])"

definition normalize_spec :: "bool \<Rightarrow> Message list \<Rightarrow> Message list" where
  "normalize_spec srs msgs =
     foldl (\<lambda>accepted m. accept_spec accepted (demote_spec srs m)) [] msgs"

section \<open>Example inputs\<close>

text \<open>A heap holding the given messages at the addresses \<open>0, 1, ...\<close> in order.\<close>

definition heap_of :: "Message list \<Rightarrow> heap" where
  "heap_of ms =
     \<lparr>cells = (\<lambda>r. if r < length ms then ms ! r else \<lparr>role = [], content = []\<rparr>),
      nxt = length ms\<rparr>"

definition example_repeats :: "Message list" where
  "example_repeats =
     [\<lparr>role = ''system'', content = ''A''\<rparr>, \<lparr>role = ''system'', content = ''B''\<rparr>,
      \<lparr>role = ''user'', content = ''C''\<rparr>]"

definition system_user :: "string \<Rightarrow> string \<Rightarrow> Message list" where
  "system_user a b = [\<lparr>role = ''system'', content = a\<rparr>, \<lparr>role = ''user'', content = b\<rparr>]"

definition example_chat :: "Message list" where
  "example_chat =
     [\<lparr>role = ''system'', content = ''A''\<rparr>, \<lparr>role = ''user'', content = ''B''\<rparr>,
      \<lparr>role = ''assistant'', content = ''C''\<rparr>]"

text \<open>
  A Claude instance with no settings, the result of \<open>build_prompt\<close> on the two messages
  system \<open>A\<close>, user \<open>B\<close> with the return type \<open>"text"\<close>, and the body that
  \<open>bedrock_format\<close> makes of the returned list when \<open>uniform(0, 1)\<close> gives \<open>1/2\<close>.
\<close>

definition claude_example :: model where
  "claude_example = Model_init Claude ''claude'' None"

definition gpt_example :: model where
  "gpt_example = Model_init GPT ''gpt'' None"

definition claude_example_prompt :: "heap \<times> ref list \<times> (error + ref list)" where
  "claude_example_prompt =
     build_prompt claude_example (heap_of (system_user ''A'' ''B'')) [0, 1] (Str ''text'')"

definition claude_example_body :: "error + body" where
  "claude_example_body =
     snd (Claude_bedrock_format claude_example (1 / 2) (fst claude_example_prompt)
            (projr (snd (snd claude_example_prompt))))"

section \<open>Invariants\<close>

text \<open>
  The loop invariant: the accepted messages alternate in role, and when the system role
  is not supported none of them is a system message (so no later rewrite touches them).
\<close>

definition accepted_ok :: "bool \<Rightarrow> heap \<Rightarrow> ref list \<Rightarrow> bool" where
  "accepted_ok srs h fixed \<longleftrightarrow>
     distinct_adj (roles h fixed) \<and> (srs \<or> ''system'' \<notin> set (roles h fixed))"

text \<open>
  What \<open>CohereCommand.format_messages\<close> leaves in the heap and returns when every message
  object occurs once in the list: the heap with the prefix put before the content of the
  system messages of the list, and one dictionary for each message.
\<close>

definition instructed :: "heap \<Rightarrow> ref set \<Rightarrow> heap" where
  "instructed h rs =
     h\<lparr>cells := (\<lambda>r. if r \<in> rs \<and> role (cells h r) = ''system''
                      then (cells h r)\<lparr>content := ''## Instructions'' @ nl @ content (cells h r)\<rparr>
                      else cells h r)\<rparr>"

definition cohere_entry :: "Message \<Rightarrow> (string \<times> string) list" where
  "cohere_entry m =
     [(''role'', if role m = ''assistant'' then ''CHATBOT'' else ''USER''),
      (''message'', if role m = ''system'' then ''## Instructions'' @ nl @ content m else content m)]"

section \<open>Heap lemmas\<close>

lemma get_set_role:
  "get (set_role h r v) r' = (if r' = r then (get h r)\<lparr>role := v\<rparr> else get h r')"
  by (simp add: get_def set_role_def)

lemma get_set_content:
  "get (set_content h r v) r' = (if r' = r then (get h r)\<lparr>content := v\<rparr> else get h r')"
  by (simp add: get_def set_content_def)

lemma role_set_content [simp]: "role (get (set_content h r v) r') = role (get h r')"
  by (simp add: get_set_content)

lemma roles_set_content [simp]: "roles (set_content h r v) rs = roles h rs"
  by (simp add: roles_def)

lemma roles_set_role_notin: "m \<notin> set rs \<Longrightarrow> roles (set_role h m v) rs = roles h rs"
  by (induction rs) (auto simp: roles_def get_set_role)

lemma roles_Nil [simp]: "roles h [] = []"
  by (simp add: roles_def)

lemma roles_Cons [simp]: "roles h (r # rs) = role (get h r) # roles h rs"
  by (simp add: roles_def)

lemma roles_append [simp]: "roles h (xs @ ys) = roles h xs @ roles h ys"
  by (simp add: roles_def)

lemma roles_Nil_iff [simp]: "roles h xs = [] \<longleftrightarrow> xs = []"
  by (simp add: roles_def)

lemma last_roles: "xs \<noteq> [] \<Longrightarrow> last (roles h xs) = role (get h (last xs))"
  by (simp add: roles_def last_map)

section \<open>Role alternation after normalization\<close>

lemma accepted_ok_loop:
  "accepted_ok srs h fixed \<Longrightarrow>
   accepted_ok srs (fst (fix_and_merge_loop srs msgs h fixed))
                   (snd (fix_and_merge_loop srs msgs h fixed))"
proof (induction msgs arbitrary: h fixed)
  case Nil
  then show ?case by simp
next
  case (Cons m msgs)
  define h1 where "h1 = (if \<not> srs \<and> role (get h m) = ''system'' then set_role h m ''user'' else h)"
  have same: "roles h1 fixed = roles h fixed"
  proof (cases "\<not> srs \<and> role (get h m) = ''system''")
    case True
    with Cons.prems have "m \<notin> set fixed"
      by (force simp: accepted_ok_def roles_def)
    with True show ?thesis by (simp add: h1_def roles_set_role_notin)
  next
    case False
    then show ?thesis by (auto simp: h1_def)
  qed
  have ok1: "accepted_ok srs h1 fixed"
    using Cons.prems same by (simp add: accepted_ok_def)
  have m_role: "srs \<or> role (get h1 m) \<noteq> ''system''"
    by (simp add: h1_def get_set_role)
  show ?case
  proof (cases "fixed \<noteq> [] \<and> role (get h1 (last fixed)) = role (get h1 m)")
    case True
    let ?h2 = "set_content h1 (last fixed)
                 (content (get h1 (last fixed)) @ nl @ nl @ content (get h1 m))"
    have "accepted_ok srs ?h2 fixed"
      using ok1 by (simp add: accepted_ok_def)
    from Cons.IH [OF this] True show ?thesis
      by (simp add: h1_def [symmetric] Let_def)
  next
    case False
    have "accepted_ok srs h1 (fixed @ [m])"
      using ok1 m_role False
      by (auto simp: accepted_ok_def distinct_adj_append_iff last_roles)
    from Cons.IH [OF this] False show ?thesis
      by (auto simp: h1_def [symmetric] Let_def)
  qed
qed

lemma accepted_ok_result:
  "accepted_ok srs (fst (Model_fix_and_merge_messages srs h msgs))
                   (snd (Model_fix_and_merge_messages srs h msgs))"
  unfolding Model_fix_and_merge_messages_def
  by (rule accepted_ok_loop) (simp add: accepted_ok_def)

text \<open>
  Claim C1. For every message list, every heap and every value of the
  \<open>system_role_supported\<close> flag, the list returned by \<open>Model.fix_and_merge_messages\<close> has no
  two adjacent messages with the same role: \<open>out[i].role \<noteq> out[i+1].role\<close> for all \<open>i\<close>.
\<close>

theorem fix_and_merge_no_adjacent_same_role:
  assumes "Model_fix_and_merge_messages srs h msgs = (h', out)"
    and "Suc i < length out"
  shows "role (get h' (out ! i)) \<noteq> role (get h' (out ! Suc i))"
proof -
  have "distinct_adj (roles h' out)"
    using accepted_ok_result [of srs h msgs] assms(1) by (simp add: accepted_ok_def)
  with assms(2) have "roles h' out ! i \<noteq> roles h' out ! Suc i"
    by (simp add: distinct_adj_conv_nth roles_def)
  with assms(2) show ?thesis by (simp add: roles_def)
qed

theorem fix_and_merge_no_adjacent_same_role_witness:
  "Suc 0 < length (snd (Model_fix_and_merge_messages True (heap_of example_repeats) [0, 1, 2])) \<and>
   role (get (fst (Model_fix_and_merge_messages True (heap_of example_repeats) [0, 1, 2]))
             (snd (Model_fix_and_merge_messages True (heap_of example_repeats) [0, 1, 2]) ! 0)) \<noteq>
   role (get (fst (Model_fix_and_merge_messages True (heap_of example_repeats) [0, 1, 2]))
             (snd (Model_fix_and_merge_messages True (heap_of example_repeats) [0, 1, 2]) ! Suc 0))"
proof -
  have len: "Suc 0 < length (snd (Model_fix_and_merge_messages True (heap_of example_repeats) [0, 1, 2]))"
    by (simp add: Model_fix_and_merge_messages_def heap_of_def example_repeats_def get_def
        set_role_def set_content_def Let_def)
  show ?thesis
    using len fix_and_merge_no_adjacent_same_role [OF prod.collapse [symmetric] len] by simp
qed

section \<open>The single pass and its specification\<close>

lemma deref_Nil [simp]: "deref h [] = []"
  by (simp add: deref_def)

lemma deref_Cons [simp]: "deref h (r # rs) = get h r # deref h rs"
  by (simp add: deref_def)

lemma deref_append [simp]: "deref h (xs @ ys) = deref h xs @ deref h ys"
  by (simp add: deref_def)

lemma deref_set_role_notin: "m \<notin> set rs \<Longrightarrow> deref (set_role h m v) rs = deref h rs"
  by (induction rs) (auto simp: get_set_role)

lemma deref_set_content_notin: "m \<notin> set rs \<Longrightarrow> deref (set_content h m v) rs = deref h rs"
  by (induction rs) (auto simp: get_set_content)

lemma deref_set_content_last:
  "fixed \<noteq> [] \<Longrightarrow> distinct fixed \<Longrightarrow>
   deref (set_content h (last fixed) v) fixed =
   butlast (deref h fixed) @ [(last (deref h fixed))\<lparr>content := v\<rparr>]"
proof (induction fixed rule: rev_induct)
  case Nil
  then show ?case by simp
next
  case (snoc x xs)
  then have "x \<notin> set xs" by simp
  then show ?case
    by (simp add: deref_set_content_notin get_set_content)
qed

lemma last_deref: "xs \<noteq> [] \<Longrightarrow> last (deref h xs) = get h (last xs)"
  by (simp add: deref_def last_map)

lemma loop_refines:
  "distinct (fixed @ msgs) \<Longrightarrow>
   deref (fst (fix_and_merge_loop srs msgs h fixed)) (snd (fix_and_merge_loop srs msgs h fixed)) =
   foldl (\<lambda>accepted m. accept_spec accepted (demote_spec srs m)) (deref h fixed) (deref h msgs)"
proof (induction msgs arbitrary: h fixed)
  case Nil
  then show ?case by simp
next
  case (Cons m msgs)
  define h1 where "h1 = (if \<not> srs \<and> role (get h m) = ''system'' then set_role h m ''user'' else h)"
  from Cons.prems have m_fixed: "m \<notin> set fixed" and m_msgs: "m \<notin> set msgs"
    and dist: "distinct fixed" "distinct msgs" and disj: "set fixed \<inter> set msgs = {}"
    by auto
  have f1: "deref h1 fixed = deref h fixed"
    using m_fixed by (simp add: h1_def deref_set_role_notin)
  have r1: "deref h1 msgs = deref h msgs"
    using m_msgs by (simp add: h1_def deref_set_role_notin)
  have g1: "get h1 m = demote_spec srs (get h m)"
    by (simp add: h1_def demote_spec_def get_set_role)
  show ?case
  proof (cases "fixed \<noteq> [] \<and> role (get h1 (last fixed)) = role (get h1 m)")
    case True
    define h2 where "h2 = set_content h1 (last fixed)
                 (content (get h1 (last fixed)) @ nl @ nl @ content (get h1 m))"
    from True disj have "last fixed \<notin> set msgs"
      by (meson disjoint_iff last_in_set)
    then have r2: "deref h2 msgs = deref h msgs"
      using r1 by (simp add: h2_def deref_set_content_notin)
    have ne: "deref h fixed \<noteq> []"
      using True by (simp add: deref_def)
    have la: "last (deref h fixed) = get h1 (last fixed)"
      using True f1 last_deref [of fixed h1] by simp
    have "deref h2 fixed =
          butlast (deref h1 fixed) @
          [(last (deref h1 fixed))\<lparr>content :=
              content (get h1 (last fixed)) @ nl @ nl @ content (get h1 m)\<rparr>]"
      unfolding h2_def using True dist(1) by (intro deref_set_content_last) auto
    also have "\<dots> = accept_spec (deref h fixed) (demote_spec srs (get h m))"
      using True ne la by (simp add: accept_spec_def f1 g1)
    finally have f2: "deref h2 fixed = accept_spec (deref h fixed) (demote_spec srs (get h m))" .
    have "distinct (fixed @ msgs)" using Cons.prems by simp
    from Cons.IH [OF this, of h2] True show ?thesis
      by (simp add: h1_def [symmetric] h2_def [symmetric] Let_def r2 f2)
  next
    case False
    have "deref h fixed = [] \<or> role (last (deref h fixed)) \<noteq> role (demote_spec srs (get h m))"
    proof (cases "fixed = []")
      case True
      then show ?thesis by simp
    next
      case ne: False
      then have "last (deref h fixed) = get h1 (last fixed)"
        using f1 last_deref [of fixed h1] by simp
      with ne False show ?thesis by (simp add: g1)
    qed
    then have f2: "deref h1 (fixed @ [m]) = accept_spec (deref h fixed) (demote_spec srs (get h m))"
      by (auto simp: accept_spec_def f1 g1)
    have "distinct ((fixed @ [m]) @ msgs)" using Cons.prems by simp
    from Cons.IH [OF this, of h1] False show ?thesis
      by (auto simp: h1_def [symmetric] Let_def r1 f2 simp del: deref_append)
  qed
qed

lemma loop_subseq:
  "\<exists>ys. snd (fix_and_merge_loop srs msgs h fixed) = fixed @ ys \<and> subseq ys msgs"
proof (induction msgs arbitrary: h fixed)
  case Nil
  then show ?case by simp
next
  case (Cons m msgs)
  define h1 where "h1 = (if \<not> srs \<and> role (get h m) = ''system'' then set_role h m ''user'' else h)"
  show ?case
  proof (cases "fixed \<noteq> [] \<and> role (get h1 (last fixed)) = role (get h1 m)")
    case True
    let ?h2 = "set_content h1 (last fixed)
                 (content (get h1 (last fixed)) @ nl @ nl @ content (get h1 m))"
    from Cons.IH [of ?h2 fixed] obtain ys
      where "snd (fix_and_merge_loop srs msgs ?h2 fixed) = fixed @ ys" "subseq ys msgs" by blast
    with True show ?thesis
      by (auto simp: h1_def [symmetric] Let_def)
  next
    case False
    from Cons.IH [of h1 "fixed @ [m]"] obtain ys
      where "snd (fix_and_merge_loop srs msgs h1 (fixed @ [m])) = fixed @ m # ys" "subseq ys msgs"
      by auto
    with False show ?thesis
      by (auto simp: h1_def [symmetric] Let_def)
  qed
qed

section \<open>Idempotence\<close>

lemma loop_fixpoint:
  "accepted_ok srs h (fixed @ msgs) \<Longrightarrow> fix_and_merge_loop srs msgs h fixed = (h, fixed @ msgs)"
proof (induction msgs arbitrary: fixed)
  case Nil
  then show ?case by simp
next
  case (Cons m msgs)
  from Cons.prems have no_rewrite: "\<not> (\<not> srs \<and> role (get h m) = ''system'')"
    by (auto simp: accepted_ok_def)
  from Cons.prems have differ: "\<not> (fixed \<noteq> [] \<and> role (get h (last fixed)) = role (get h m))"
    by (auto simp: accepted_ok_def distinct_adj_append_iff last_roles)
  from Cons.prems have "accepted_ok srs h ((fixed @ [m]) @ msgs)" by simp
  from Cons.IH [OF this] no_rewrite differ show ?case
    by auto
qed


text \<open>
  Claim C3. Normalization is one pass from left to right: a system message is rewritten
  to user when the system role is not supported; a message whose role equals that of the
  last accepted message is merged into it as \<open>A.content + "\n\n" + B.content\<close> and dropped,
  otherwise it is appended. So the output is never longer than the input and keeps its
  order. The output list is a subsequence of the input list for every input; the messages
  it denotes are those of \<open>normalize_spec\<close> when the input list holds each message object
  once.
\<close>

theorem fix_and_merge_single_pass:
  assumes "Model_fix_and_merge_messages srs h msgs = (h', out)"
  shows "length out \<le> length msgs \<and> subseq out msgs \<and>
         (distinct msgs \<longrightarrow> deref h' out = normalize_spec srs (deref h msgs))"
proof -
  from loop_subseq [of srs msgs h "[]"] assms have sub: "subseq out msgs"
    by (simp add: Model_fix_and_merge_messages_def)
  then have len: "length out \<le> length msgs"
    by (rule list_emb_length)
  have "deref h' out = normalize_spec srs (deref h msgs)" if "distinct msgs"
    using loop_refines [of "[]" msgs srs h] that assms
    by (simp add: Model_fix_and_merge_messages_def normalize_spec_def)
  with sub len show ?thesis by blast
qed

theorem fix_and_merge_single_pass_witness:
  "length (snd (Model_fix_and_merge_messages False (heap_of example_repeats) [0, 1, 2])) \<le> 3 \<and>
   subseq (snd (Model_fix_and_merge_messages False (heap_of example_repeats) [0, 1, 2])) [0, 1, 2] \<and>
   deref (fst (Model_fix_and_merge_messages False (heap_of example_repeats) [0, 1, 2]))
         (snd (Model_fix_and_merge_messages False (heap_of example_repeats) [0, 1, 2])) =
   normalize_spec False example_repeats \<and>
   normalize_spec False example_repeats =
     [\<lparr>role = ''user'', content = ''A'' @ nl @ nl @ ''B'' @ nl @ nl @ ''C''\<rparr>]"
proof -
  have d: "distinct [0::nat, 1, 2]" by simp
  have e: "deref (heap_of example_repeats) [0, 1, 2] = example_repeats"
    by (simp add: heap_of_def example_repeats_def get_def)
  have n: "normalize_spec False example_repeats =
     [\<lparr>role = ''user'', content = ''A'' @ nl @ nl @ ''B'' @ nl @ nl @ ''C''\<rparr>]"
    by (simp add: normalize_spec_def example_repeats_def accept_spec_def demote_spec_def)
  show ?thesis
    using fix_and_merge_single_pass [OF prod.collapse [symmetric],
        of False "heap_of example_repeats" "[0, 1, 2]"] d e n
    by simp
qed

text \<open>
  Claim C7. With \<open>system_role_supported\<close> false, normalizing the result of a normalization
  changes nothing: the same list is returned and no message object is modified.
\<close>

theorem fix_and_merge_idempotent:
  assumes "Model_fix_and_merge_messages False h msgs = (h1, out1)"
  shows "Model_fix_and_merge_messages False h1 out1 = (h1, out1)"
proof -
  have "accepted_ok False h1 out1"
    using accepted_ok_result [of False h msgs] assms by simp
  then have "accepted_ok False h1 ([] @ out1)" by simp
  from loop_fixpoint [OF this] show ?thesis
    by (simp add: Model_fix_and_merge_messages_def)
qed

theorem fix_and_merge_idempotent_witness:
  "Model_fix_and_merge_messages False
     (fst (Model_fix_and_merge_messages False (heap_of example_repeats) [0, 1, 2]))
     (snd (Model_fix_and_merge_messages False (heap_of example_repeats) [0, 1, 2])) =
   Model_fix_and_merge_messages False (heap_of example_repeats) [0, 1, 2]"
  using fix_and_merge_idempotent [OF prod.collapse [symmetric],
      of "heap_of example_repeats" "[0, 1, 2]"]
  by simp

section \<open>Cohere: role conversion and the instruction prefix\<close>

lemma role_converter_simps [simp]:
  "role_converter ''user'' = Some ''USER''"
  "role_converter ''system'' = Some ''USER''"
  "role_converter ''assistant'' = Some ''CHATBOT''"
  by (simp_all add: role_converter_def)

lemma instructed_empty [simp]: "instructed h {} = h"
  by (simp add: instructed_def)

lemma role_instructed [simp]: "role (get (instructed h rs) r) = role (get h r)"
  by (simp add: instructed_def get_def)

lemma roles_instructed [simp]: "roles (instructed h rs) msgs = roles h msgs"
  by (simp add: roles_def)

lemma format_messages_loop_distinct:
  "distinct msgs \<Longrightarrow> set (roles h msgs) \<subseteq> {''user'', ''system'', ''assistant''} \<Longrightarrow>
   format_messages_loop msgs h acc =
     (instructed h (set msgs), Inr (acc @ map (\<lambda>r. cohere_entry (get h r)) msgs))"
proof (induction msgs arbitrary: h acc)
  case Nil
  then show ?case by simp
next
  case (Cons msg msgs)
  define h1 where "h1 = (if role (get h msg) = ''system''
                then set_content h msg (''## Instructions'' @ nl @ content (get h msg))
                else h)"
  have r1: "\<And>r. role (get h1 r) = role (get h r)"
    by (simp add: h1_def)
  from Cons.prems have notin: "msg \<notin> set msgs" and dist: "distinct msgs" by auto
  have same: "\<And>r. r \<in> set msgs \<Longrightarrow> get h1 r = get h r"
    using notin by (auto simp: h1_def get_set_content)
  have roles1: "set (roles h1 msgs) \<subseteq> {''user'', ''system'', ''assistant''}"
    using Cons.prems(2) by (simp add: roles_def r1)
  have conv: "role_converter (role (get h1 msg)) =
        Some (if role (get h msg) = ''assistant'' then ''CHATBOT'' else ''USER'')"
    using Cons.prems(2) by (auto simp: r1)
  have entry: "[(''role'', if role (get h msg) = ''assistant'' then ''CHATBOT'' else ''USER''),
                (''message'', content (get h1 msg))] = cohere_entry (get h msg)"
    by (simp add: cohere_entry_def h1_def get_set_content)
  have heap_eq: "instructed h1 (set msgs) = instructed h (set (msg # msgs))"
    using notin
    by (auto simp: instructed_def h1_def set_content_def get_def fun_eq_iff)
  have map_eq: "map (\<lambda>r. cohere_entry (get h1 r)) msgs = map (\<lambda>r. cohere_entry (get h r)) msgs"
    using same by simp
  show ?case
    using Cons.IH [OF dist roles1, of "acc @ [cohere_entry (get h msg)]"]
    by (simp add: h1_def [symmetric] Let_def conv entry heap_eq map_eq)
qed

lemma format_messages_loop_roles:
  "set (roles h msgs) \<subseteq> {''user'', ''system'', ''assistant''} \<Longrightarrow>
   \<exists>h' out. format_messages_loop msgs h acc = (h', Inr (acc @ out)) \<and>
     map (\<lambda>c. item c ''role'') out =
     map (\<lambda>r. if role (get h r) = ''assistant'' then ''CHATBOT'' else ''USER'') msgs"
proof (induction msgs arbitrary: h acc)
  case Nil
  then show ?case by simp
next
  case (Cons msg msgs)
  define h1 where "h1 = (if role (get h msg) = ''system''
                then set_content h msg (''## Instructions'' @ nl @ content (get h msg))
                else h)"
  have r1: "\<And>r. role (get h1 r) = role (get h r)"
    by (simp add: h1_def)
  have roles1: "set (roles h1 msgs) \<subseteq> {''user'', ''system'', ''assistant''}"
    using Cons.prems by (simp add: roles_def r1)
  have conv: "role_converter (role (get h1 msg)) =
        Some (if role (get h msg) = ''assistant'' then ''CHATBOT'' else ''USER'')"
    using Cons.prems by (auto simp: r1)
  define e where "e = [(''role'', if role (get h msg) = ''assistant'' then ''CHATBOT'' else ''USER''),
                (''message'', content (get h1 msg))]"
  from Cons.IH [OF roles1, of "acc @ [e]"] obtain h' out
    where run: "format_messages_loop msgs h1 (acc @ [e]) = (h', Inr ((acc @ [e]) @ out))"
      and rs: "map (\<lambda>c. item c ''role'') out =
               map (\<lambda>r. if role (get h1 r) = ''assistant'' then ''CHATBOT'' else ''USER'') msgs"
    by blast
  have "format_messages_loop (msg # msgs) h acc = (h', Inr (acc @ (e # out)))"
    using run by (simp add: h1_def [symmetric] Let_def conv e_def)
  moreover have "map (\<lambda>c. item c ''role'') (e # out) =
     map (\<lambda>r. if role (get h r) = ''assistant'' then ''CHATBOT'' else ''USER'') (msg # msgs)"
    using rs by (simp add: r1 e_def item_def)
  ultimately show ?case by blast
qed


text \<open>
  Claim C5. \<open>CohereCommand.format_messages\<close> converts the role of each message by the table
  user to USER, system to USER, assistant to CHATBOT, and a system message with content
  \<open>A\<close> becomes the dictionary with role USER and message \<open>## Instructions\nA\<close>.
\<close>

theorem cohere_format_messages_conversion:
  assumes "set (roles h msgs) \<subseteq> {''user'', ''system'', ''assistant''}"
  shows "(\<exists>h' out. format_messages h msgs = (h', Inr out) \<and>
            map (\<lambda>c. item c ''role'') out =
            map (\<lambda>r. if role (get h r) = ''user'' then ''USER''
                      else if role (get h r) = ''system'' then ''USER'' else ''CHATBOT'') msgs) \<and>
         (\<forall>r a. get h r = \<lparr>role = ''system'', content = a\<rparr> \<longrightarrow>
            snd (format_messages h [r]) =
            Inr [[(''role'', ''USER''), (''message'', ''## Instructions'' @ nl @ a)]])"
proof -
  from format_messages_loop_roles [OF assms, of "[]"] obtain h' out
    where "format_messages h msgs = (h', Inr out)"
      and "map (\<lambda>c. item c ''role'') out =
           map (\<lambda>r. if role (get h r) = ''assistant'' then ''CHATBOT'' else ''USER'') msgs"
    by (auto simp: format_messages_def)
  moreover have "map (\<lambda>r. if role (get h r) = ''assistant'' then ''CHATBOT'' else ''USER'') msgs =
        map (\<lambda>r. if role (get h r) = ''user'' then ''USER''
                  else if role (get h r) = ''system'' then ''USER'' else ''CHATBOT'') msgs"
    using assms by (auto simp: roles_def)
  ultimately have first: "\<exists>h' out. format_messages h msgs = (h', Inr out) \<and>
            map (\<lambda>c. item c ''role'') out =
            map (\<lambda>r. if role (get h r) = ''user'' then ''USER''
                      else if role (get h r) = ''system'' then ''USER'' else ''CHATBOT'') msgs"
    by auto
  have "snd (format_messages h [r]) =
        Inr [[(''role'', ''USER''), (''message'', ''## Instructions'' @ nl @ a)]]"
    if "get h r = \<lparr>role = ''system'', content = a\<rparr>" for r a
    using that by (simp add: format_messages_def Let_def get_set_content)
  with first show ?thesis by blast
qed

theorem cohere_format_messages_conversion_witness:
  "snd (format_messages (heap_of example_chat) [0, 1, 2]) =
     Inr [[(''role'', ''USER''), (''message'', ''## Instructions'' @ nl @ ''A'')],
          [(''role'', ''USER''), (''message'', ''B'')],
          [(''role'', ''CHATBOT''), (''message'', ''C'')]] \<and>
   snd (format_messages (heap_of example_chat) [0]) =
     Inr [[(''role'', ''USER''), (''message'', ''## Instructions'' @ nl @ ''A'')]]"
proof -
  have k: "set (roles (heap_of example_chat) [0, 1, 2]) \<subseteq> {''user'', ''system'', ''assistant''}"
    by (simp add: heap_of_def example_chat_def get_def)
  have g: "get (heap_of example_chat) 0 = \<lparr>role = ''system'', content = ''A''\<rparr>"
    by (simp add: heap_of_def example_chat_def get_def)
  have e: "snd (format_messages (heap_of example_chat) [0, 1, 2]) =
     Inr [[(''role'', ''USER''), (''message'', ''## Instructions'' @ nl @ ''A'')],
          [(''role'', ''USER''), (''message'', ''B'')],
          [(''role'', ''CHATBOT''), (''message'', ''C'')]]"
    by (simp add: format_messages_def heap_of_def example_chat_def get_def set_content_def Let_def)
  from cohere_format_messages_conversion [OF k] g e show ?thesis
    by blast
qed

text \<open>
  Claim C9. \<open>CohereCommand.format_messages\<close> changes the caller's message objects: after the
  call the content of every system message of the list carries the prefix
  \<open>## Instructions\n\<close>, so a second call on the same list, through \<open>format_messages\<close> or
  through \<open>bedrock_format\<close> of either Cohere class, yields the prefix twice. Stated for a
  list that holds each message object once and whose roles are in the conversion table.
\<close>

theorem cohere_format_messages_mutates:
  assumes "distinct msgs"
    and "set (roles h msgs) \<subseteq> {''user'', ''system'', ''assistant''}"
    and "format_messages h msgs = (h1, r1)"
    and "format_messages h1 msgs = (h2, r2)"
    and "i < length msgs"
    and "role (get h (msgs ! i)) = ''system''"
  shows "content (get h1 (msgs ! i)) = ''## Instructions'' @ nl @ content (get h (msgs ! i)) \<and>
         (\<exists>out1. r1 = Inr out1 \<and>
            item (out1 ! i) ''message'' = ''## Instructions'' @ nl @ content (get h (msgs ! i))) \<and>
         (\<exists>out2. r2 = Inr out2 \<and>
            item (out2 ! i) ''message'' =
            ''## Instructions'' @ nl @ ''## Instructions'' @ nl @ content (get h (msgs ! i))) \<and>
         fst (CohereCommand_bedrock_format self u h msgs) = h1 \<and>
         fst (CohereCommandR_bedrock_format self u h msgs) = h1"
proof -
  let ?c = "content (get h (msgs ! i))"
  have first: "format_messages h msgs =
        (instructed h (set msgs), Inr (map (\<lambda>r. cohere_entry (get h r)) msgs))"
    using format_messages_loop_distinct [OF assms(1,2), of "[]"]
    by (simp add: format_messages_def)
  with assms(3) have h1: "h1 = instructed h (set msgs)"
    and r1: "r1 = Inr (map (\<lambda>r. cohere_entry (get h r)) msgs)" by simp_all
  have roles1: "set (roles h1 msgs) \<subseteq> {''user'', ''system'', ''assistant''}"
    using assms(2) by (simp add: h1)
  have "format_messages h1 msgs =
        (instructed h1 (set msgs), Inr (map (\<lambda>r. cohere_entry (get h1 r)) msgs))"
    using format_messages_loop_distinct [OF assms(1) roles1, of "[]"]
    by (simp add: format_messages_def)
  with assms(4) have r2: "r2 = Inr (map (\<lambda>r. cohere_entry (get h1 r)) msgs)" by simp
  have c1: "content (get h1 (msgs ! i)) = ''## Instructions'' @ nl @ ?c"
    using assms(5,6) by (simp add: h1 instructed_def get_def)
  have role1: "role (get h1 (msgs ! i)) = ''system''"
    using assms(6) by (simp add: h1)
  have m1: "item (map (\<lambda>r. cohere_entry (get h r)) msgs ! i) ''message'' =
            ''## Instructions'' @ nl @ ?c"
    using assms(5,6) by (simp add: cohere_entry_def item_def)
  have m2: "item (map (\<lambda>r. cohere_entry (get h1 r)) msgs ! i) ''message'' =
            ''## Instructions'' @ nl @ ''## Instructions'' @ nl @ ?c"
    using assms(5) role1 c1 by (simp add: cohere_entry_def item_def)
  have b1: "fst (CohereCommand_bedrock_format self u h msgs) = h1"
    by (simp add: CohereCommand_bedrock_format_def first h1)
  have b2: "fst (CohereCommandR_bedrock_format self u h msgs) = h1"
    by (simp add: CohereCommandR_bedrock_format_def first h1)
  from c1 r1 r2 m1 m2 b1 b2 show ?thesis by simp
qed

theorem cohere_format_messages_mutates_witness:
  "content (get (fst (format_messages (heap_of example_chat) [0, 1, 2])) 0) =
     ''## Instructions'' @ nl @ ''A'' \<and>
   (\<exists>out2. snd (format_messages (fst (format_messages (heap_of example_chat) [0, 1, 2])) [0, 1, 2]) =
             Inr out2 \<and>
           item (out2 ! 0) ''message'' = ''## Instructions'' @ nl @ ''## Instructions'' @ nl @ ''A'')"
proof -
  have d: "distinct [0::nat, 1, 2]" by simp
  have k: "set (roles (heap_of example_chat) [0, 1, 2]) \<subseteq> {''user'', ''system'', ''assistant''}"
    by (simp add: heap_of_def example_chat_def get_def)
  have i: "0 < length [0::nat, 1, 2]" by simp
  have r: "role (get (heap_of example_chat) ([0, 1, 2] ! 0)) = ''system''"
    by (simp add: heap_of_def example_chat_def get_def)
  have c: "content (get (heap_of example_chat) ([0, 1, 2] ! 0)) = ''A''"
    by (simp add: heap_of_def example_chat_def get_def)
  from cohere_format_messages_mutates
         [OF d k prod.collapse [symmetric] prod.collapse [symmetric] i r] c
  show ?thesis by simp
qed

section \<open>Claude: the leading system message\<close>




section \<open>The temperature field\<close>

text \<open>
  Every variant that builds a body computes the field in the same way: the configured
  value when the key is present with a value that counts as true, the sample otherwise.
\<close>

lemma bedrock_format_temperature:
  "snd (snd (bedrock_format self u h msgs)) = Inr b \<Longrightarrow>
   map_of b ''temperature'' = Some (get_or (model_settings self) ''temperature'' (PFloat u))"
  by (auto simp: bedrock_format_def Llama2_bedrock_format_def CohereCommand_bedrock_format_def
      CohereCommandR_bedrock_format_def Claude_bedrock_format_def
      split: variant.splits prod.splits sum.splits list.splits)

lemma get_or_absent: "settings key = None \<Longrightarrow> get_or settings key dflt = dflt"
  by (simp add: get_or_def)

lemma get_or_truthy: "settings key = Some v \<Longrightarrow> truthy v \<Longrightarrow> get_or settings key dflt = v"
  by (simp add: get_or_def)

text \<open>
  Claim C4 says that the \<open>temperature\<close> field equals the configured value whenever the key
  is present in the settings. With the settings \<open>{"temperature": 0}\<close> the field is the
  sample drawn from \<open>uniform(0, 1)\<close> instead, here \<open>1/2\<close>: \<open>or\<close> discards a configured value
  that is false in a boolean context.
\<close>

theorem claude_temperature_zero_replaced:
  "map_of (projr (snd (Claude_bedrock_format
             (Model_init Claude ''claude'' (Some [''temperature'' \<mapsto> PInt 0])) (1 / 2)
             (heap_of (system_user ''A'' ''B'')) [0, 1])))
     ''temperature'' = Some (PFloat (1 / 2))"
  by (simp add: Claude_bedrock_format_def Model_init_def get_or_def)

section \<open>The scaffold messages at the ends of the prompt\<close>

lemma role_kept:
  "srs \<or> role (get h r) \<noteq> ''system'' \<Longrightarrow>
   role (get (fst (fix_and_merge_loop srs msgs h fixed)) r) = role (get h r)"
proof (induction msgs arbitrary: h fixed)
  case Nil
  then show ?case by simp
next
  case (Cons m msgs)
  define h1 where "h1 = (if \<not> srs \<and> role (get h m) = ''system'' then set_role h m ''user'' else h)"
  have r1: "role (get h1 r) = role (get h r)"
    using Cons.prems by (auto simp: h1_def get_set_role)
  with Cons.prems have p1: "srs \<or> role (get h1 r) \<noteq> ''system''" by simp
  show ?case
  proof (cases "fixed \<noteq> [] \<and> role (get h1 (last fixed)) = role (get h1 m)")
    case True
    let ?h2 = "set_content h1 (last fixed)
                 (content (get h1 (last fixed)) @ nl @ nl @ content (get h1 m))"
    have "srs \<or> role (get ?h2 r) \<noteq> ''system''" using p1 by simp
    from Cons.IH [OF this, of fixed] True r1 show ?thesis
      by (simp add: h1_def [symmetric] Let_def)
  next
    case False
    from Cons.IH [OF p1, of "fixed @ [m]"] False r1 show ?thesis
      by (auto simp: h1_def [symmetric] Let_def)
  qed
qed

lemma loop_append:
  "fix_and_merge_loop srs (xs @ ys) h fixed =
   fix_and_merge_loop srs ys (fst (fix_and_merge_loop srs xs h fixed))
                             (snd (fix_and_merge_loop srs xs h fixed))"
  by (induction xs arbitrary: h fixed) (simp_all add: Let_def)

lemma llama2_wrap_loop_role [simp]:
  "role (get (llama2_wrap_loop msgs h) r) = role (get h r)"
  by (induction msgs arbitrary: h) (simp_all add: Let_def)

lemma boundary_roles:
  assumes s: "role (get h s) = ''system''" and a: "role (get h a) = ''assistant''"
  shows "\<exists>ys. snd (fix_and_merge_loop srs (s # messages @ [a]) h []) = s # ys \<and>
           role (get (fst (fix_and_merge_loop srs (s # messages @ [a]) h [])) s) =
             (if srs then ''system'' else ''user'') \<and>
           role (get (fst (fix_and_merge_loop srs (s # messages @ [a]) h []))
                     (last (s # ys))) = ''assistant''"
proof -
  define h1 where "h1 = (if \<not> srs then set_role h s ''user'' else h)"
  have "a \<noteq> s" using s a by auto
  then have a1: "role (get h1 a) = ''assistant''"
    using a by (simp add: h1_def get_set_role)
  have s1: "role (get h1 s) = (if srs then ''system'' else ''user'')"
    using s by (simp add: h1_def get_set_role)
  define hk where "hk = fst (fix_and_merge_loop srs messages h1 [s])"
  define fk where "fk = snd (fix_and_merge_loop srs messages h1 [s])"
  from loop_subseq [of srs messages h1 "[s]"] obtain ys where fk: "fk = s # ys"
    by (auto simp: fk_def)
  have ak: "role (get hk a) = ''assistant''"
    unfolding hk_def using a1 by (simp add: role_kept)
  have sk: "role (get hk s) = (if srs then ''system'' else ''user'')"
    unfolding hk_def using s1 by (simp add: role_kept)
  have unfold: "fix_and_merge_loop srs (s # messages @ [a]) h [] =
                fix_and_merge_loop srs [a] hk fk"
    using s by (simp add: Let_def h1_def hk_def fk_def loop_append)
  show ?thesis
  proof (cases "role (get hk (last fk)) = role (get hk a)")
    case True
    then have "fix_and_merge_loop srs [a] hk fk =
        (set_content hk (last fk) (content (get hk (last fk)) @ nl @ nl @ content (get hk a)), fk)"
      using ak fk by (simp add: Let_def)
    with unfold True ak sk fk show ?thesis by simp
  next
    case False
    then have "fix_and_merge_loop srs [a] hk fk = (hk, fk @ [a])"
      using ak fk by (simp add: Let_def)
    with unfold ak sk fk show ?thesis by simp
  qed
qed


lemma alloc_simps:
  "snd (alloc h m) = nxt h"
  "nxt (fst (alloc h m)) = Suc (nxt h)"
  "get (fst (alloc h m)) r = (if r = nxt h then m else get h r)"
  by (simp_all add: alloc_def get_def)

lemma triple_collapse: "x = (fst x, fst (snd x), snd (snd x))"
  by simp

text \<open>
  \<open>build_prompt\<close> does not return a list for every instance and descriptor: on a \<open>GPT\<close>
  instance, whose template methods return \<open>None\<close>, it raises \<open>TypeError\<close>, and on a dict
  that \<open>json.dumps\<close> rejects it raises the exception of \<open>json.dumps\<close>.
\<close>

theorem build_prompt_no_list_counterexample:
  "snd (snd (build_prompt gpt_example (heap_of (system_user ''A'' ''B'')) [0, 1] (Str ''text''))) =
     Inl TypeError \<and>
   snd (snd (build_prompt claude_example (heap_of (system_user ''A'' ''B'')) [0, 1]
               (Dict (Inl TypeError)))) = Inl TypeError"
  by (simp add: build_prompt_def gpt_example_def claude_example_def Model_init_def
      system_message_jinja2_def assistant_hint_jinja2_def render_scaffold_def)

text \<open>
  Claim C10, as the code has it. For every message list: on an instance of a class that
  keeps the templates of \<open>Model\<close> (every class of \<open>model.py\<close> but \<open>GPT\<close>) and a descriptor that
  is a string or a dict that \<open>json.dumps\<close> serializes, \<open>build_prompt\<close> returns a non-empty
  list whose last message has role \<open>assistant\<close> and whose first message has role \<open>system\<close>
  when \<open>system_role_supported\<close> is true, and role \<open>user\<close> otherwise. On a \<open>GPT\<close> instance it
  raises \<open>TypeError\<close>, and on a dict that \<open>json.dumps\<close> rejects it raises that exception;
  in both cases the list and the messages are left as they were.
\<close>

theorem build_prompt_boundary_roles:
  assumes "build_prompt self h messages p = (h', messages', r)"
  shows "(variant self = GPT \<longrightarrow> r = Inl TypeError \<and> h' = h \<and> messages' = messages) \<and>
         (variant self \<noteq> GPT \<and> dumps_error p = Some e \<longrightarrow>
            r = Inl e \<and> h' = h \<and> messages' = messages) \<and>
         (variant self \<noteq> GPT \<and> dumps_error p = None \<longrightarrow>
            (\<exists>out. r = Inr out \<and> out \<noteq> [] \<and>
               role (get h' (last out)) = ''assistant'' \<and>
               role (get h' (hd out)) =
                 (if system_role_supported self then ''system'' else ''user'')))"
proof -
  have gpt: "r = Inl TypeError \<and> h' = h \<and> messages' = messages" if "variant self = GPT"
    using that assms by (simp add: build_prompt_def system_message_jinja2_def)
  have rejected: "r = Inl e \<and> h' = h \<and> messages' = messages"
    if "variant self \<noteq> GPT" "dumps_error p = Some e"
    using that assms
    by (auto simp: build_prompt_def system_message_jinja2_def assistant_hint_jinja2_def
        render_scaffold_def dumps_error_def split: params.splits sum.splits)
  have good: "\<exists>out. r = Inr out \<and> out \<noteq> [] \<and>
               role (get h' (last out)) = ''assistant'' \<and>
               role (get h' (hd out)) =
                 (if system_role_supported self then ''system'' else ''user'')"
    if v: "variant self \<noteq> GPT" and d: "dumps_error p = None"
  proof -
    from d obtain ch
      where ch: "render_scaffold system_message_render assistant_hint_render p = Inr ch"
      by (auto simp: render_scaffold_def dumps_error_def split: params.splits sum.splits)
    define s where "s = nxt h"
    define a where "a = Suc (nxt h)"
    define h2 where "h2 = fst (alloc (fst (alloc h \<lparr>role = ''system'', content = fst ch\<rparr>))
                                \<lparr>role = ''assistant'', content = snd ch\<rparr>)"
    define srs where "srs = system_role_supported self"
    define R where "R = fix_and_merge_loop srs (s # messages @ [a]) h2 []"
    have bp: "build_prompt self h messages p =
              (fst (fix_and_merge_messages self h2 (s # messages @ [a])), s # messages @ [a],
               Inr (snd (fix_and_merge_messages self h2 (s # messages @ [a]))))"
      using v
      by (simp add: build_prompt_def system_message_jinja2_def assistant_hint_jinja2_def Let_def
          alloc_simps ch s_def a_def h2_def)
    have rs: "role (get h2 s) = ''system''" and ra: "role (get h2 a) = ''assistant''"
      by (simp_all add: h2_def s_def a_def alloc_simps)
    from boundary_roles [OF rs ra, of srs messages] obtain ys
      where out: "snd R = s # ys"
        and first: "role (get (fst R) s) = (if srs then ''system'' else ''user'')"
        and final: "role (get (fst R) (last (s # ys))) = ''assistant''"
      by (auto simp: R_def)
    have fm: "snd (fix_and_merge_messages self h2 (s # messages @ [a])) = snd R \<and>
              (\<forall>x. role (get (fst (fix_and_merge_messages self h2 (s # messages @ [a]))) x) =
                   role (get (fst R) x))"
      by (simp add: fix_and_merge_messages_def Llama2_fix_and_merge_messages_def
          Model_fix_and_merge_messages_def R_def srs_def split: prod.splits)
    from bp assms have r: "r = Inr (snd R)"
      and h': "h' = fst (fix_and_merge_messages self h2 (s # messages @ [a]))"
      using fm by simp_all
    show ?thesis
      using r h' fm out first final by (simp add: srs_def)
  qed
  from gpt rejected good show ?thesis by blast
qed

theorem build_prompt_boundary_roles_witness:
  "variant claude_example \<noteq> GPT \<and> dumps_error (Str ''text'') = None \<and>
   (\<exists>out. snd (snd (build_prompt claude_example
                     (heap_of (system_user ''A'' ''B'')) [0, 1] (Str ''text''))) = Inr out \<and>
      out \<noteq> [] \<and>
      role (get (fst (build_prompt claude_example
                     (heap_of (system_user ''A'' ''B'')) [0, 1] (Str ''text''))) (last out)) =
        ''assistant'' \<and>
      role (get (fst (build_prompt claude_example
                     (heap_of (system_user ''A'' ''B'')) [0, 1] (Str ''text''))) (hd out)) =
        ''system'')"
proof -
  have v: "variant claude_example \<noteq> GPT"
    by (simp add: claude_example_def Model_init_def)
  have f: "system_role_supported claude_example"
    by (simp add: claude_example_def Model_init_def)
  have d: "dumps_error (Str ''text'') = None"
    by (simp add: dumps_error_def)
  from build_prompt_boundary_roles
         [where self = claude_example and p = "Str ''text''", OF triple_collapse] v f d
  show ?thesis by simp
qed

section \<open>Rendered scaffold texts\<close>

lemma strip_core:
  assumes "s \<noteq> []" "\<not> is_space (hd s)" "\<not> is_space (last s)" "\<forall>c\<in>set t. is_space c"
  shows "strip (s @ t) = s"
proof -
  have front: "dropWhile is_space (s @ t) = s @ t"
    using assms(1,2) by (cases s) simp_all
  have "dropWhile is_space (rev t @ rev s) = dropWhile is_space (rev s)"
    using assms(4) by (intro dropWhile_append2) simp
  also have "\<dots> = rev s"
    using assms(1,3) by (cases "rev s") (simp_all add: last_rev [symmetric] hd_rev)
  finally show ?thesis
    by (simp add: strip_def front)
qed

lemma is_space_simps [simp]:
  "is_space (CHR 0x0A)" "is_space (CHR '' '')" "\<not> is_space (CHR ''A'')" "\<not> is_space (CHR ''e'')"
  "\<not> is_space (CHR ''`'')" "\<not> is_space (CHR ''n'')"
  by (simp_all add: is_space_def)

lemma strip_system_message_render:
  "strip (system_message_render schema return_type) =
     ''Act like a REST API that performs the requested operation the user asked according to guidelines provided.'' @ nl @
     (if return_type = ''json'' then
        nl @ ''    Your response should be a valid JSON format, strictly adhering to the Pydantic schema provided in the json_schema section. '' @ nl @
        ''    Respond in a structured JSON format according to the provided schema.'' @ nl @
        nl @
        ''```json_schema'' @ nl @
        ''    '' @ schema @ nl @
        ''```'' @ nl
      else
        nl @ ''        Your response should be a valid '' @ return_type @ '' only'' @ nl) @
     nl @ ''        Stick to the facts and details in the provided data, and follow the guidelines closely.'' @ nl @
     ''        DO NOT add any other text other than the '' @ return_type @ '' response''"
  (is "_ = ?body")
proof -
  have split: "system_message_render schema return_type = ?body @ (nl @ ''    '')"
    by (simp add: system_message_render_def)
  have "strip (?body @ (nl @ ''    '')) = ?body"
    by (rule strip_core) (simp_all add: nl_def)
  with split show ?thesis by simp
qed

lemma strip_assistant_hint_render:
  "strip (assistant_hint_render return_type) = (if return_type = ''json'' then ''```json'' else [])"
  by (simp add: assistant_hint_render_def strip_def nl_def)


lemmas run_simps =
  build_prompt_def Model_init_def Llama2_init_def system_message_jinja2_def
  assistant_hint_jinja2_def render_scaffold_def alloc_def heap_of_def system_user_def get_def
  set_content_def set_role_def fix_and_merge_messages_def Llama2_fix_and_merge_messages_def
  Model_fix_and_merge_messages_def Let_def strip_assistant_hint_render

section \<open>Llama: the joined prompt\<close>

text \<open>
  Claim C6. For the Llama variant, the messages system \<open>A\<close>, user \<open>B\<close> and a schema as
  return type, the prompt built from the list that \<open>build_prompt\<close> returns holds the system
  content (the rendered instruction merged with \<open>A\<close>) between \<open><<SYS>>\<close> and \<open><</SYS>>\<close>
  and the user content between \<open>[INST]\<close> and \<open>[/INST]\<close>, followed by the assistant hint.
\<close>

theorem llama2_prompt_wrapping:
  assumes "build_prompt (Llama2_init name) (heap_of (system_user a b)) [0, 1]
             (Dict (Inr schema)) =
           (h1, msgs1, r)"
  shows "\<exists>out. r = Inr out \<and>
           map_of (Llama2_bedrock_format (Llama2_init name) u h1 out) ''prompt'' =
           Some (PStr (''<<SYS>> '' @ strip (system_message_render schema ''json'') @ nl @ nl @ a @
                         '' <</SYS>>'' @ nl @
                       ''[INST] '' @ b @ '' [/INST]'' @ nl @
                       ''```json''))"
  using assms
  by (auto simp: run_simps Llama2_bedrock_format_def)

theorem llama2_prompt_wrapping_witness:
  "\<exists>out. snd (snd (build_prompt (Llama2_init ''llama'') (heap_of (system_user ''A'' ''B'')) [0, 1]
                      (Dict (Inr ''{}'')))) = Inr out \<and>
     map_of (Llama2_bedrock_format (Llama2_init ''llama'') (1 / 2)
               (fst (build_prompt (Llama2_init ''llama'') (heap_of (system_user ''A'' ''B'')) [0, 1]
                       (Dict (Inr ''{}'')))) out) ''prompt'' =
     Some (PStr (''<<SYS>> '' @ strip (system_message_render ''{}'' ''json'') @ nl @ nl @ ''A'' @
                   '' <</SYS>>'' @ nl @
                 ''[INST] '' @ ''B'' @ '' [/INST]'' @ nl @
                 ''```json''))"
  using llama2_prompt_wrapping
          [where name = "''llama''" and a = "''A''" and b = "''B''" and schema = "''{}''"
             and u = "1 / 2", OF triple_collapse]
  by simp

section \<open>Claude: the system field and the messages field\<close>

lemma claude_example_body_value:
  "claude_example_body =
     Inr [(''system'', PStr (strip (system_message_render ''text'' ''text'') @ nl @ nl @ ''A'')),
          (''max_tokens'', PInt 8000),
          (''messages'', PList [dict \<lparr>role = ''user'', content = ''B''\<rparr>,
                                dict \<lparr>role = ''assistant'', content = []\<rparr>]),
          (''temperature'', PFloat (1 / 2)),
          (''anthropic_version'', PStr ''bedrock-2023-05-31'')]"
  by (simp add: claude_example_body_def claude_example_prompt_def claude_example_def
      build_prompt_def Model_init_def system_message_jinja2_def assistant_hint_jinja2_def
      render_scaffold_def alloc_def heap_of_def system_user_def get_def set_content_def
      set_role_def fix_and_merge_messages_def Model_fix_and_merge_messages_def Let_def
      strip_assistant_hint_render Claude_bedrock_format_def get_or_def dict_def)

text \<open>
  The request body for the two messages system \<open>A\<close>, user \<open>B\<close>, made from the list that
  \<open>build_prompt\<close> returns: its \<open>system\<close> field is not \<open>A\<close>, and its \<open>messages\<close> field is not
  the single user message.
\<close>

theorem claude_system_field_counterexample:
  "map_of (projr claude_example_body) ''system'' \<noteq> Some (PStr ''A'') \<and>
   map_of (projr claude_example_body) ''messages'' \<noteq>
     Some (PList [dict \<lparr>role = ''user'', content = ''B''\<rparr>])"
  by (simp add: claude_example_body_value strip_system_message_render dict_def)

text \<open>
  Claim C2, as the code has it. For the Claude variant and the messages system \<open>A\<close>, user
  \<open>B\<close>: \<open>bedrock_format\<close> applied to that list itself gives the \<open>system\<close> field \<open>A\<close> and the
  single message user \<open>B\<close>. Applied to the list that \<open>build_prompt\<close> returns for it, the
  \<open>system\<close> field is the stripped rendering of the system template, a blank line and \<open>A\<close>,
  and \<open>messages\<close> holds the user message \<open>B\<close> followed by an assistant message with the
  hint. The template is rendered with the schema text and the return type \<open>json\<close> for a
  dict, and with the string as both for a string; the hint is the opening fence of a json
  block when the return type is \<open>json\<close> (a dict, or the string \<open>"json"\<close>) and empty for
  every other string.
\<close>

theorem claude_body_after_build_prompt:
  assumes "p = Dict (Inr schema) \<and> s = schema \<and> rt = ''json'' \<or> p = Str rt \<and> s = rt"
    and "build_prompt (Model_init Claude name settings) (heap_of (system_user a b)) [0, 1] p =
         (h1, msgs1, r)"
  shows "(\<exists>body. Claude_bedrock_format (Model_init Claude name settings) u
                    (heap_of (system_user a b)) [0, 1] = ([1], Inr body) \<and>
            map_of body ''system'' = Some (PStr a) \<and>
            map_of body ''messages'' = Some (PList [dict \<lparr>role = ''user'', content = b\<rparr>])) \<and>
         (\<exists>out body. r = Inr out \<and>
            snd (Claude_bedrock_format (Model_init Claude name settings) u h1 out) = Inr body \<and>
            map_of body ''system'' =
              Some (PStr (strip (system_message_render s rt) @ nl @ nl @ a)) \<and>
            map_of body ''messages'' =
              Some (PList [dict \<lparr>role = ''user'', content = b\<rparr>,
                           dict \<lparr>role = ''assistant'',
                                 content = (if rt = ''json'' then ''```json'' else [])\<rparr>]))"
proof -
  have direct: "\<exists>body. Claude_bedrock_format (Model_init Claude name settings) u
                    (heap_of (system_user a b)) [0, 1] = ([1], Inr body) \<and>
            map_of body ''system'' = Some (PStr a) \<and>
            map_of body ''messages'' = Some (PList [dict \<lparr>role = ''user'', content = b\<rparr>])"
    by (simp add: Claude_bedrock_format_def heap_of_def system_user_def get_def)
  have sc: "render_scaffold system_message_render assistant_hint_render p =
            Inr (strip (system_message_render s rt), if rt = ''json'' then ''```json'' else [])"
    using assms(1) by (auto simp: render_scaffold_def strip_assistant_hint_render)
  have "\<exists>out body. r = Inr out \<and>
            snd (Claude_bedrock_format (Model_init Claude name settings) u h1 out) = Inr body \<and>
            map_of body ''system'' =
              Some (PStr (strip (system_message_render s rt) @ nl @ nl @ a)) \<and>
            map_of body ''messages'' =
              Some (PList [dict \<lparr>role = ''user'', content = b\<rparr>,
                           dict \<lparr>role = ''assistant'',
                                 content = (if rt = ''json'' then ''```json'' else [])\<rparr>])"
    using assms(2)
    by (auto simp: build_prompt_def sc Model_init_def system_message_jinja2_def
        assistant_hint_jinja2_def alloc_def heap_of_def system_user_def get_def
        set_content_def set_role_def fix_and_merge_messages_def
        Model_fix_and_merge_messages_def Let_def Claude_bedrock_format_def)
  with direct show ?thesis by blast
qed

theorem claude_body_after_build_prompt_witness:
  "\<exists>out body.
     snd (snd (build_prompt (Model_init Claude ''claude'' None) (heap_of (system_user ''A'' ''B''))
                 [0, 1] (Str ''json''))) = Inr out \<and>
     snd (Claude_bedrock_format (Model_init Claude ''claude'' None) (1 / 2)
            (fst (build_prompt (Model_init Claude ''claude'' None)
                    (heap_of (system_user ''A'' ''B'')) [0, 1] (Str ''json''))) out) = Inr body \<and>
     map_of body ''system'' =
       Some (PStr (strip (system_message_render ''json'' ''json'') @ nl @ nl @ ''A'')) \<and>
     map_of body ''messages'' =
       Some (PList [dict \<lparr>role = ''user'', content = ''B''\<rparr>,
                    dict \<lparr>role = ''assistant'', content = ''```json''\<rparr>])"
proof -
  have c: "Str ''json'' = Dict (Inr ''json'') \<and> ''json'' = ''json'' \<and> ''json'' = ''json'' \<or>
           Str ''json'' = Str ''json'' \<and> ''json'' = ''json''"
    by simp
  from claude_body_after_build_prompt
         [where name = "''claude''" and settings = None and a = "''A''" and b = "''B''"
            and u = "1 / 2", OF c triple_collapse]
  show ?thesis by simp
qed

end
